theory Spec2Isabelle
  imports Main
begin

section \<open>Exceptions\<close>

text \<open>
  Every exception the two services can raise is a value. \<open>HTTPException\<close> carries
  \<open>status_code\<close>, \<open>detail\<close> and \<open>headers\<close>; a handler that raises it answers with that
  status. The other constructors are exceptions of the libraries the code calls; the
  handlers catch none of them except where the model says so, and an exception that
  leaves a handler is answered by the framework with status 500.
\<close>

datatype exn =
    HTTPException nat string "(string \<times> string) list"
  | IntegrityError
  | MultipleResultsFound
  | UnknownHashError
  | MalformedHashError
  | PasswordSizeError
  | NullPasswordError
  | OverflowError
  | RecursionError
  | TypeError
  | JWTError
  | ExpiredSignatureError
  | JWTClaimsError

section \<open>main.py: students, courses, enrollments\<close>

subsection \<open>Tables\<close>

record school_student =
  st_id :: int
  st_name :: string

record course =
  c_id :: int
  c_title :: string
  c_description :: string
  c_credits :: int

record enrollment =
  e_id :: int
  e_student_id :: int
  e_course_id :: int

text \<open>The database \<open>school.db\<close>: one list of rows per table, in insertion order.\<close>

record school_db =
  students :: "school_student list"
  courses :: "course list"
  enrollments :: "enrollment list"

definition empty_school_db :: school_db where
  "empty_school_db = \<lparr>students = [], courses = [], enrollments = []\<rparr>"

text \<open>
  An \<open>Integer\<close> primary key left unset is filled in by SQLite with one more than the
  largest key of the table, and with 1 in an empty table. (At the largest 64-bit key
  SQLite picks an unused key at random; no table of this service gets there.)
\<close>

definition next_id :: "int list \<Rightarrow> int" where
  "next_id ids = (case ids of [] \<Rightarrow> 1 | i # rest \<Rightarrow> fold max rest i + 1)"

text \<open>\<open>session.get(Student, i)\<close> and \<open>session.get(Course, i)\<close>: the row with that key.\<close>

definition session_get_student :: "school_db \<Rightarrow> int \<Rightarrow> school_student option" where
  "session_get_student db i = find (\<lambda>s. st_id s = i) (students db)"

definition session_get_course :: "school_db \<Rightarrow> int \<Rightarrow> course option" where
  "session_get_course db i = find (\<lambda>c. c_id c = i) (courses db)"

text \<open>
  The pair of columns under \<open>UniqueConstraint("student_id", "course_id")\<close>.
\<close>

definition uq_student_course :: "enrollment \<Rightarrow> int \<times> int" where
  "uq_student_course e = (e_student_id e, e_course_id e)"

text \<open>
  \<open>session.add(enrollment); session.commit()\<close>: the INSERT is refused with
  \<open>IntegrityError\<close> when a row with the same pair exists, and appends the row otherwise.
  Foreign keys are declared but SQLite does not enforce them on this connection (no
  \<open>PRAGMA foreign_keys\<close>), so the unique constraint is the only one that can fail.
\<close>

definition commit_enrollment :: "school_db \<Rightarrow> int \<Rightarrow> int \<Rightarrow> exn + school_db" where
  "commit_enrollment db sid cid =
     (if (sid, cid) \<in> set (map uq_student_course (enrollments db))
      then Inl IntegrityError
      else Inr (db\<lparr>enrollments := enrollments db @
             [\<lparr>e_id = next_id (map e_id (enrollments db)),
               e_student_id = sid, e_course_id = cid\<rparr>]\<rparr>))"

subsection \<open>Handlers\<close>

text \<open>
  Each handler takes the request and the database and returns the response (or the
  exception it raises) together with the database afterwards.
\<close>

definition create_student :: "string \<Rightarrow> school_db \<Rightarrow> (exn + school_student) \<times> school_db" where
  "create_student payload_name db =
     (let student = \<lparr>st_id = next_id (map st_id (students db)), st_name = payload_name\<rparr>
      in (Inr student, db\<lparr>students := students db @ [student]\<rparr>))"

definition delete_student :: "int \<Rightarrow> school_db \<Rightarrow> (exn + int) \<times> school_db" where
  "delete_student student_id db =
     (case session_get_student db student_id of
        None \<Rightarrow> (Inl (HTTPException 404 ''Student not found'' []), db)
      | Some student \<Rightarrow>
          (Inr student_id,
           db\<lparr>students := filter (\<lambda>s. st_id s \<noteq> student_id) (students db)\<rparr>))"

definition create_course :: "string \<Rightarrow> school_db \<Rightarrow> (exn + course) \<times> school_db" where
  "create_course payload_title db =
     (let course = \<lparr>c_id = next_id (map c_id (courses db)), c_title = payload_title,
                    c_description = '''', c_credits = 3\<rparr>
      in (Inr course, db\<lparr>courses := courses db @ [course]\<rparr>))"

record enroll_request =
  req_student_id :: int
  req_course_id :: int

record enroll_response =
  enrolled :: bool
  resp_student_id :: int
  resp_course_id :: int

text \<open>
  \<open>enroll\<close>: 404 when the student or the course is missing; then the commit, whose
  failure is caught, rolled back (the database stays as it was) and answered with 400.
\<close>

definition enroll :: "enroll_request \<Rightarrow> school_db \<Rightarrow> (exn + enroll_response) \<times> school_db" where
  "enroll req db =
     (case session_get_student db (req_student_id req) of
        None \<Rightarrow> (Inl (HTTPException 404 ''Student not found'' []), db)
      | Some student \<Rightarrow>
          (case session_get_course db (req_course_id req) of
             None \<Rightarrow> (Inl (HTTPException 404 ''Course not found'' []), db)
           | Some course \<Rightarrow>
               (case commit_enrollment db (req_student_id req) (req_course_id req) of
                  Inl e \<Rightarrow> (Inl (HTTPException 400 ''Already enrolled (or invalid)'' []), db)
                | Inr db' \<Rightarrow>
                    (Inr \<lparr>enrolled = True, resp_student_id = req_student_id req,
                          resp_course_id = req_course_id req\<rparr>, db'))))"

text \<open>
  The states of \<open>school.db\<close> that the service can reach from the empty database through
  its four writing endpoints.
\<close>

inductive reachable :: "school_db \<Rightarrow> bool" where
  reach_empty: "reachable empty_school_db"
| reach_create_student: "reachable db \<Longrightarrow> reachable (snd (create_student n db))"
| reach_delete_student: "reachable db \<Longrightarrow> reachable (snd (delete_student i db))"
| reach_create_course: "reachable db \<Longrightarrow> reachable (snd (create_course t db))"
| reach_enroll: "reachable db \<Longrightarrow> reachable (snd (enroll req db))"

definition pairs_unique :: "school_db \<Rightarrow> bool" where
  "pairs_unique db = distinct (map uq_student_course (enrollments db))"

section \<open>student_exam.py: what it calls\<close>

text \<open>
  The service delegates to three things that are not part of the repository: the clock
  and \<open>datetime\<close>, passlib's \<open>CryptContext(schemes=["bcrypt"])\<close> and python-jose's
  \<open>jwt\<close>. They are modelled by their behaviour at the calls the service makes, with the
  two cryptographic primitives (the bcrypt digest and HMAC-SHA256) and the random salt
  taken as parameters.
\<close>

subsection \<open>The clock and datetime\<close>

text \<open>
  A \<open>datetime\<close> is the number of microseconds since 1970-01-01T00:00:00Z; the clock
  reading is an argument of every function that reads the clock. \<open>datetime\<close> spans the
  years 1 to 9999 and \<open>timedelta\<close> at most 999999999 days either way; arithmetic that
  leaves these ranges raises \<open>OverflowError\<close>.
\<close>

type_synonym datetime = int

definition datetime_min :: datetime where
  "datetime_min = - 62135596800000000"

definition datetime_max :: datetime where
  "datetime_max = 253402300799999999"

definition timedelta_minutes :: "int \<Rightarrow> exn + int" where
  "timedelta_minutes m =
     (if m * 60000000 < - 86399999913600000000 \<or> 86399999999999999999 < m * 60000000
      then Inl OverflowError else Inr (m * 60000000))"

definition datetime_add :: "datetime \<Rightarrow> int \<Rightarrow> exn + datetime" where
  "datetime_add t d =
     (if t + d < datetime_min \<or> datetime_max < t + d then Inl OverflowError else Inr (t + d))"

text \<open>
  \<open>int(t.timestamp())\<close>: whole seconds, rounded towards zero. The division is taken as
  exact. \<open>timestamp()\<close> is a float, and agrees with the exact quotient for every instant
  between the years 1426 and 2514; beyond them its rounding can move the result by one
  second, away from zero.
\<close>

definition timestamp_int :: "datetime \<Rightarrow> int" where
  "timestamp_int t = (if 0 \<le> t then t div 1000000 else - ((- t) div 1000000))"

text \<open>
  \<open>timegm(datetime.utcnow().utctimetuple())\<close>, the clock as python-jose reads it: whole
  seconds, the microseconds dropped.
\<close>

definition timegm_utcnow :: "datetime \<Rightarrow> int" where
  "timegm_utcnow t = t div 1000000"

subsection \<open>passlib: CryptContext(schemes=["bcrypt"])\<close>

text \<open>
  A password, a Python \<open>str\<close>, is represented by its UTF-8 encoding, a list of bytes:
  \<open>length\<close> is the number of bytes, and \<open>str_len\<close> the number of characters, which is the
  number of bytes that are not continuation bytes (\<open>0x80\<close> to \<open>0xBF\<close>). A \<open>str\<close> with
  a lone surrogate has no UTF-8 encoding and is not represented.
\<close>

definition utf8_continuation :: "char \<Rightarrow> bool" where
  "utf8_continuation c = (128 \<le> (of_char c :: nat) \<and> (of_char c :: nat) < 192)"

definition str_len :: "string \<Rightarrow> nat" where
  "str_len s = length (filter (\<lambda>c. \<not> utf8_continuation c) s)"

text \<open>
  A hash string is represented by what the context makes of it:
  \<^item> \<open>Bcrypt ident rounds salt checksum\<close> is a string in the shape of bcrypt's modular
    crypt format: \<open>$\<close>, the identifier, \<open>$\<close>, the rounds in two digits, \<open>$\<close>, and the
    rest, of which the first 22 characters are the salt and the others the checksum.
    The fields are as they stand in the string;
  \<^item> \<open>BcryptMalformed s\<close> is a string that starts with a bcrypt identifier but has not
    that shape;
  \<^item> \<open>Unidentified s\<close> is any other string: no configured scheme identifies it.

  The exceptions are named after \<open>passlib.exc\<close>; all of them are \<open>ValueError\<close>s.
\<close>

datatype hash_string =
    Bcrypt string nat string string
  | BcryptMalformed string
  | Unidentified string

text \<open>
  The bcrypt handler accepts the identifiers 2, 2a, 2y and 2b, rounds from 4 to 31, a
  salt of 22 and a checksum of 31 characters of bcrypt's base64 alphabet, and raises a
  \<open>ValueError\<close> on anything else.
\<close>

definition bcrypt64_chars :: string where
  "bcrypt64_chars = ''./ABCDEFGHIJKLMNOPQRSTUVWXYZabcdefghijklmnopqrstuvwxyz0123456789''"

definition bcrypt_fields_ok :: "string \<Rightarrow> nat \<Rightarrow> string \<Rightarrow> string \<Rightarrow> bool" where
  "bcrypt_fields_ok ident rounds salt checksum =
     (ident \<in> set [''2'', ''2a'', ''2y'', ''2b''] \<and> 4 \<le> rounds \<and> rounds \<le> 31 \<and>
      length salt = 22 \<and> list_all (\<lambda>c. c \<in> set bcrypt64_chars) salt \<and>
      length checksum = 31 \<and> list_all (\<lambda>c. c \<in> set bcrypt64_chars) checksum)"

text \<open>
  The last character of the salt carries four unused bits and the last character of the
  checksum two. The handler clears them (with a warning) before it uses the field:
  \<open>repair_unused 16\<close> for the salt, \<open>repair_unused 4\<close> for the checksum. A field whose
  unused bits are clear stays as it is.
\<close>

definition bcrypt64_index :: "char \<Rightarrow> nat" where
  "bcrypt64_index c = length (takeWhile (\<lambda>x. x \<noteq> c) bcrypt64_chars)"

definition repair_unused :: "nat \<Rightarrow> string \<Rightarrow> string" where
  "repair_unused k s =
     (case rev s of
        [] \<Rightarrow> []
      | c # r \<Rightarrow> rev r @ [bcrypt64_chars ! (bcrypt64_index c div k * k)])"

text \<open>
  A well-formed bcrypt hash whose unused bits are clear, as passlib's salt generator and
  the bcrypt digest produce them.
\<close>

definition bcrypt_hash_ok :: "string \<Rightarrow> nat \<Rightarrow> string \<Rightarrow> string \<Rightarrow> bool" where
  "bcrypt_hash_ok ident rounds salt checksum =
     (bcrypt_fields_ok ident rounds salt checksum \<and>
      repair_unused 16 salt = salt \<and> repair_unused 4 checksum = checksum)"

text \<open>
  The bcrypt digest: identifier, rounds, salt and password to checksum. Bcrypt's
  truncation of the password at 72 bytes happens inside it.
\<close>

type_synonym bcrypt = "string \<Rightarrow> nat \<Rightarrow> string \<Rightarrow> string \<Rightarrow> string"

text \<open>
  \<open>pwd_context.hash(secret)\<close>: passlib refuses a secret of more than 4096 characters
  and, once it is encoded, one of more than 4096 bytes (\<open>PasswordSizeError\<close>); the
  bcrypt handler refuses one that contains a NUL (\<open>NullPasswordError\<close>). Otherwise the
  hash is made with identifier 2b, 12 rounds and the salt passlib draws, which is
  well-formed with its unused bits clear.
\<close>

definition pwd_context_hash :: "bcrypt \<Rightarrow> string \<Rightarrow> string \<Rightarrow> exn + hash_string" where
  "pwd_context_hash bc salt secret =
     (if 4096 < str_len secret then Inl PasswordSizeError
      else if 4096 < length secret then Inl PasswordSizeError
      else if CHR 0x00 \<in> set secret then Inl NullPasswordError
      else Inr (Bcrypt ''2b'' 12 salt (bc ''2b'' 12 salt secret)))"

text \<open>
  \<open>pwd_context.verify(secret, hash)\<close>: the hash is identified first
  (\<open>UnknownHashError\<close> when no scheme claims it), then the secret's size in characters
  is checked and the hash is parsed and its fields are checked. Then the secret is
  encoded, its size in bytes is checked and it is searched for NUL, and the checksum is
  computed again from it with the parsed identifier, rounds and salt and compared with
  the parsed one.
\<close>

definition pwd_context_verify :: "bcrypt \<Rightarrow> string \<Rightarrow> hash_string \<Rightarrow> exn + bool" where
  "pwd_context_verify bc secret hash =
     (case hash of
        Unidentified s \<Rightarrow> Inl UnknownHashError
      | BcryptMalformed s \<Rightarrow>
          if 4096 < str_len secret then Inl PasswordSizeError else Inl MalformedHashError
      | Bcrypt ident rounds salt checksum \<Rightarrow>
          if 4096 < str_len secret then Inl PasswordSizeError
          else if \<not> bcrypt_fields_ok ident rounds salt checksum then Inl MalformedHashError
          else if 4096 < length secret then Inl PasswordSizeError
          else if CHR 0x00 \<in> set secret then Inl NullPasswordError
          else Inr (bc ident rounds (repair_unused 16 salt) secret = repair_unused 4 checksum))"

subsection \<open>python-jose: jwt.encode and jwt.decode\<close>

text \<open>
  The claims this service writes and reads, each present or absent: \<open>sub\<close> a string,
  \<open>iat\<close> and \<open>exp\<close> integers.
\<close>

record claims =
  claim_sub :: "string option"
  claim_iat :: "int option"
  claim_exp :: "int option"

text \<open>
  The payload segment of a token, by what \<open>jwt.decode\<close> makes of it once the signature
  is verified:
  \<^item> \<open>Claims c\<close> decodes to a JSON object with the claims \<open>c\<close> (and possibly others that
    \<open>jwt.decode\<close> does not look at);
  \<^item> \<open>NotAnObject s\<close> does not decode to a JSON object: \<open>JWTError\<close>;
  \<^item> \<open>RejectedClaims s\<close> is an object with a claim that python-jose rejects, such as a
    \<open>sub\<close> that is not a string or an \<open>aud\<close>: \<open>JWTClaimsError\<close>;
  \<^item> \<open>DeepPayload s\<close> is JSON nested deeper than the interpreter's recursion limit:
    \<open>json.loads\<close> raises \<open>RecursionError\<close>, which python-jose does not catch;
  \<^item> \<open>IllTyped s\<close> is an object whose \<open>iat\<close> or \<open>exp\<close> is \<open>null\<close>, an array or an object:
    \<open>int()\<close> raises \<open>TypeError\<close>, which python-jose does not catch.

  A payload on which \<open>jwt.decode\<close> raises anything else is not represented.
\<close>

datatype jws_payload =
    Claims claims
  | NotAnObject string
  | RejectedClaims string
  | DeepPayload string
  | IllTyped string

text \<open>
  A token string is represented by what the parser makes of it:
  \<^item> \<open>Compact alg payload sig\<close> is the compact serialisation of a header with that
    \<open>alg\<close>, a payload and a signature;
  \<^item> \<open>Unparseable s\<close> is a string that does not split and decode into these three
    parts: \<open>JWTError\<close>;
  \<^item> \<open>DeepHeader s\<close> is a string whose header segment is JSON nested deeper than the
    interpreter's recursion limit: \<open>json.loads\<close> raises \<open>RecursionError\<close>, which
    python-jose does not catch.
\<close>

datatype token =
    Compact string jws_payload string
  | Unparseable string
  | DeepHeader string

text \<open>
  The keyed MAC (HMAC-SHA256): key and signing input to signature. The signing input is
  the encoded header and payload, which the pair of \<open>alg\<close> and payload stands for.
\<close>

type_synonym hmac = "string \<Rightarrow> string \<times> jws_payload \<Rightarrow> string"

definition jwt_encode :: "hmac \<Rightarrow> claims \<Rightarrow> string \<Rightarrow> string \<Rightarrow> token" where
  "jwt_encode hm payload key algorithm =
     Compact algorithm (Claims payload) (hm key (algorithm, Claims payload))"

text \<open>
  \<open>jwt.decode(token, key, algorithms)\<close>: the token is split and its header decoded;
  \<open>JWTError\<close> when its \<open>alg\<close> is not among \<open>algorithms\<close> or when the signature is not the
  MAC of the signing input under \<open>key\<close>; then the payload is decoded and its claims are
  checked, with \<open>ExpiredSignatureError\<close> when \<open>exp\<close> is present and \<open>exp < now\<close>.
  \<open>ExpiredSignatureError\<close> and \<open>JWTClaimsError\<close> are subclasses of \<open>JWTError\<close>;
  \<open>RecursionError\<close> and \<open>TypeError\<close> are not.
\<close>

definition jwt_decode :: "hmac \<Rightarrow> datetime \<Rightarrow> token \<Rightarrow> string \<Rightarrow> string list \<Rightarrow> exn + claims" where
  "jwt_decode hm now tok key algorithms =
     (case tok of
        Unparseable s \<Rightarrow> Inl JWTError
      | DeepHeader s \<Rightarrow> Inl RecursionError
      | Compact alg payload sig \<Rightarrow>
          if alg \<notin> set algorithms then Inl JWTError
          else if hm key (alg, payload) \<noteq> sig then Inl JWTError
          else (case payload of
                  NotAnObject s \<Rightarrow> Inl JWTError
                | RejectedClaims s \<Rightarrow> Inl JWTClaimsError
                | DeepPayload s \<Rightarrow> Inl RecursionError
                | IllTyped s \<Rightarrow> Inl TypeError
                | Claims c \<Rightarrow>
                    (case claim_exp c of
                       None \<Rightarrow> Inr c
                     | Some e \<Rightarrow>
                         if e < timegm_utcnow now then Inl ExpiredSignatureError else Inr c)))"

text \<open>What \<open>except JWTError\<close> catches.\<close>

definition is_JWTError :: "exn \<Rightarrow> bool" where
  "is_JWTError e = (e = JWTError \<or> e = ExpiredSignatureError \<or> e = JWTClaimsError)"

section \<open>student_exam.py\<close>

subsection \<open>Settings, table and schemas\<close>

definition SECRET_KEY :: string where
  "SECRET_KEY = ''CHANGE_ME_TO_A_LONG_RANDOM_SECRET''"

definition ALGORITHM :: string where
  "ALGORITHM = ''HS256''"

definition ACCESS_TOKEN_EXPIRE_MINUTES :: int where
  "ACCESS_TOKEN_EXPIRE_MINUTES = 60"

record student =
  s_id :: int
  s_name :: string
  s_email :: string
  s_hashed_password :: hash_string
  s_is_active :: bool

text \<open>The database \<open>exams.db\<close> has the one table \<open>students\<close>.\<close>

type_synonym exams_db = "student list"

record student_create =
  sc_name :: string
  sc_email :: string
  sc_password :: string

record student_out =
  so_id :: int
  so_name :: string
  so_email :: string

record token_response =
  access_token :: token
  token_type :: string

record login_form =
  form_username :: string
  form_password :: string

subsection \<open>Helper functions\<close>

definition get_password_hash :: "bcrypt \<Rightarrow> string \<Rightarrow> string \<Rightarrow> exn + hash_string" where
  "get_password_hash bc salt password = pwd_context_hash bc salt password"

definition verify_password :: "bcrypt \<Rightarrow> string \<Rightarrow> hash_string \<Rightarrow> exn + bool" where
  "verify_password bc plain_password hashed_password =
     pwd_context_verify bc plain_password hashed_password"

definition create_access_token :: "hmac \<Rightarrow> datetime \<Rightarrow> string \<Rightarrow> int \<Rightarrow> exn + token" where
  "create_access_token hm now subject expires_minutes =
     (case timedelta_minutes expires_minutes of
        Inl e \<Rightarrow> Inl e
      | Inr d \<Rightarrow>
          (case datetime_add now d of
             Inl e \<Rightarrow> Inl e
           | Inr t \<Rightarrow>
               Inr (jwt_encode hm
                      \<lparr>claim_sub = Some subject,
                       claim_iat = Some (timestamp_int now),
                       claim_exp = Some (timestamp_int t)\<rparr>
                      SECRET_KEY ALGORITHM)))"

text \<open>
  \<open>scalar_one_or_none()\<close>: no row gives \<open>None\<close>, one row gives the row, more rows raise.
\<close>

definition get_student_by_email :: "exams_db \<Rightarrow> string \<Rightarrow> exn + student option" where
  "get_student_by_email db email =
     (case filter (\<lambda>s. s_email s = email) db of
        [] \<Rightarrow> Inr None
      | [s] \<Rightarrow> Inr (Some s)
      | _ \<Rightarrow> Inl MultipleResultsFound)"

definition credentials_exception :: exn where
  "credentials_exception =
     HTTPException 401 ''Could not validate credentials'' [(''WWW-Authenticate'', ''Bearer'')]"

text \<open>
  The \<open>try\<close> block of \<open>get_current_student\<close>, which binds \<open>email\<close>: the token is decoded
  and \<open>sub\<close> is read; an absent \<open>sub\<close> and every \<open>JWTError\<close> become the credentials
  exception. The token is the one \<open>oauth2_scheme\<close> has taken from the request's
  \<open>Authorization: Bearer\<close> header.
\<close>

definition token_email :: "hmac \<Rightarrow> datetime \<Rightarrow> token \<Rightarrow> exn + string" where
  "token_email hm now tok =
     (case jwt_decode hm now tok SECRET_KEY [ALGORITHM] of
        Inl e \<Rightarrow> if is_JWTError e then Inl credentials_exception else Inl e
      | Inr payload \<Rightarrow>
          (case claim_sub payload of
             None \<Rightarrow> Inl credentials_exception
           | Some email \<Rightarrow> Inr email))"

definition get_current_student :: "hmac \<Rightarrow> datetime \<Rightarrow> token \<Rightarrow> exams_db \<Rightarrow> exn + student" where
  "get_current_student hm now tok db =
     (case token_email hm now tok of
        Inl e \<Rightarrow> Inl e
      | Inr email \<Rightarrow>
          (case get_student_by_email db email of
             Inl e \<Rightarrow> Inl e
           | Inr None \<Rightarrow> Inl credentials_exception
           | Inr (Some student) \<Rightarrow> Inr student))"

subsection \<open>Routes\<close>

text \<open>
  \<open>db.add(new_student); db.commit()\<close>: the INSERT fills in the key and the default of
  \<open>is_active\<close>, and is refused when the email is already in the table (\<open>unique=True\<close>).
\<close>

definition commit_student :: "exams_db \<Rightarrow> string \<Rightarrow> string \<Rightarrow> hash_string \<Rightarrow> exn + student \<times> exams_db" where
  "commit_student db n email h =
     (if email \<in> set (map s_email db) then Inl IntegrityError
      else (let new_student = \<lparr>s_id = next_id (map s_id db), s_name = n, s_email = email,
                                s_hashed_password = h, s_is_active = True\<rparr>
            in Inr (new_student, db @ [new_student])))"

text \<open>\<open>response_model=StudentOut\<close>: the response keeps \<open>id\<close>, \<open>name\<close> and \<open>email\<close>.\<close>

definition to_student_out :: "student \<Rightarrow> student_out" where
  "to_student_out s = \<lparr>so_id = s_id s, so_name = s_name s, so_email = s_email s\<rparr>"

definition register :: "bcrypt \<Rightarrow> string \<Rightarrow> student_create \<Rightarrow> exams_db \<Rightarrow> (exn + student_out) \<times> exams_db" where
  "register bc salt payload db =
     (case get_student_by_email db (sc_email payload) of
        Inl e \<Rightarrow> (Inl e, db)
      | Inr (Some existing) \<Rightarrow> (Inl (HTTPException 400 ''Email already registered'' []), db)
      | Inr None \<Rightarrow>
          (case get_password_hash bc salt (sc_password payload) of
             Inl e \<Rightarrow> (Inl e, db)
           | Inr h \<Rightarrow>
               (case commit_student db (sc_name payload) (sc_email payload) h of
                  Inl e \<Rightarrow> (Inl e, db)
                | Inr (new_student, db') \<Rightarrow> (Inr (to_student_out new_student), db'))))"

definition incorrect_login :: exn where
  "incorrect_login =
     HTTPException 401 ''Incorrect email or password'' [(''WWW-Authenticate'', ''Bearer'')]"

definition login :: "hmac \<Rightarrow> bcrypt \<Rightarrow> datetime \<Rightarrow> login_form \<Rightarrow> exams_db \<Rightarrow> exn + token_response" where
  "login hm bc now form_data db =
     (case get_student_by_email db (form_username form_data) of
        Inl e \<Rightarrow> Inl e
      | Inr None \<Rightarrow> Inl incorrect_login
      | Inr (Some student) \<Rightarrow>
          (case verify_password bc (form_password form_data) (s_hashed_password student) of
             Inl e \<Rightarrow> Inl e
           | Inr False \<Rightarrow> Inl incorrect_login
           | Inr True \<Rightarrow>
               (case create_access_token hm now (s_email student) ACCESS_TOKEN_EXPIRE_MINUTES of
                  Inl e \<Rightarrow> Inl e
                | Inr access \<Rightarrow> Inr \<lparr>access_token = access, token_type = ''bearer''\<rparr>)))"

record exam =
  exam_course :: string
  exam_term :: string
  exam_date :: string
  exam_grade :: string

record exams_response =
  resp_exams_student_id :: int
  resp_exams_term :: string
  resp_exams :: "exam list"

definition my_exams :: "string \<Rightarrow> student \<Rightarrow> exams_response" where
  "my_exams term_arg current_student =
     (let exams =
        [\<lparr>exam_course = ''Math 101'', exam_term = term_arg,
          exam_date = ''2026-12-15'', exam_grade = ''A''\<rparr>,
         \<lparr>exam_course = ''History 201'', exam_term = term_arg,
          exam_date = ''2026-12-18'', exam_grade = ''B+''\<rparr>]
      in \<lparr>resp_exams_student_id = s_id current_student, resp_exams_term = term_arg,
          resp_exams = exams\<rparr>)"

text \<open>
  The route \<open>/me/exams\<close>: \<open>current_student\<close> is resolved by the dependency
  \<open>get_current_student\<close>, whose exception is the response when it raises.
\<close>

definition my_exams_route :: "hmac \<Rightarrow> datetime \<Rightarrow> token \<Rightarrow> exams_db \<Rightarrow> string \<Rightarrow> exn + exams_response" where
  "my_exams_route hm now tok db term_arg =
     (case get_current_student hm now tok db of
        Inl e \<Rightarrow> Inl e
      | Inr current_student \<Rightarrow> Inr (my_exams term_arg current_student))"

subsection \<open>Stand-ins for the primitives\<close>

text \<open>
  Two concrete functions in place of HMAC-SHA256 and of the bcrypt digest, used only
  where an example is evaluated. Every general statement below holds for all functions
  of these types.
\<close>

definition sample_hmac :: hmac where
  "sample_hmac key m =
     key @ fst m @
     (case snd m of
        Claims c \<Rightarrow> (case claim_sub c of None \<Rightarrow> [] | Some s \<Rightarrow> s)
      | NotAnObject s \<Rightarrow> s
      | RejectedClaims s \<Rightarrow> s
      | DeepPayload s \<Rightarrow> s
      | IllTyped s \<Rightarrow> s)"

definition sample_bcrypt :: bcrypt where
  "sample_bcrypt ident rounds salt secret =
     take 30 (filter (\<lambda>c. c \<in> set bcrypt64_chars) (secret @ salt) @ replicate 30 (CHR ''/''))
     @ ''.''"

section \<open>Properties of main.py\<close>

lemma enrollments_create_student: "enrollments (snd (create_student n db)) = enrollments db"
  by (simp add: create_student_def Let_def)

lemma enrollments_delete_student: "enrollments (snd (delete_student i db)) = enrollments db"
  by (simp add: delete_student_def split: option.splits)

lemma enrollments_create_course: "enrollments (snd (create_course t db)) = enrollments db"
  by (simp add: create_course_def Let_def)

lemma pairs_unique_commit:
  assumes "pairs_unique db" and "commit_enrollment db sid cid = Inr db'"
  shows "pairs_unique db'"
proof -
  from assms(2) have fresh: "(sid, cid) \<notin> set (map uq_student_course (enrollments db))"
    and db': "db' = db\<lparr>enrollments := enrollments db @
             [\<lparr>e_id = next_id (map e_id (enrollments db)),
               e_student_id = sid, e_course_id = cid\<rparr>]\<rparr>"
    by (auto simp: commit_enrollment_def split: if_splits)
  from assms(1) fresh show ?thesis
    unfolding db' pairs_unique_def by (simp add: uq_student_course_def)
qed

lemma pairs_unique_enroll:
  assumes "pairs_unique db"
  shows "pairs_unique (snd (enroll req db))"
proof (cases "session_get_student db (req_student_id req)")
  case None
  with assms show ?thesis by (simp add: enroll_def)
next
  case student: (Some s)
  show ?thesis
  proof (cases "session_get_course db (req_course_id req)")
    case None
    with assms student show ?thesis by (simp add: enroll_def)
  next
    case course: (Some c)
    show ?thesis
    proof (cases "commit_enrollment db (req_student_id req) (req_course_id req)")
      case (Inl e)
      with assms student course show ?thesis by (simp add: enroll_def)
    next
      case (Inr db')
      with assms have "pairs_unique db'" by (rule pairs_unique_commit)
      with student course Inr show ?thesis by (simp add: enroll_def)
    qed
  qed
qed

lemma reachable_pairs_unique: "reachable db \<Longrightarrow> pairs_unique db"
proof (induction rule: reachable.induct)
  case reach_empty
  show ?case by (simp add: pairs_unique_def empty_school_db_def)
next
  case (reach_create_student db n)
  then show ?case by (simp add: pairs_unique_def enrollments_create_student)
next
  case (reach_delete_student db i)
  then show ?case by (simp add: pairs_unique_def enrollments_delete_student)
next
  case (reach_create_course db t)
  then show ?case by (simp add: pairs_unique_def enrollments_create_course)
next
  case (reach_enroll db req)
  from reach_enroll.IH show ?case by (rule pairs_unique_enroll)
qed

lemma enroll_duplicate:
  assumes "session_get_student db (req_student_id req) = Some s"
    and "session_get_course db (req_course_id req) = Some c"
    and "(req_student_id req, req_course_id req) \<in> set (map uq_student_course (enrollments db))"
  shows "enroll req db = (Inl (HTTPException 400 ''Already enrolled (or invalid)'' []), db)"
  using assms by (simp add: enroll_def commit_enrollment_def)

text \<open>
  Claim C9. When the student and the course of the request both exist and an enrollment
  row with the same (student_id, course_id) pair is already stored, \<open>enroll\<close> raises the
  400 error and leaves the database, and so the enrollments table, exactly as it was.
  And no database state the service reaches holds two enrollment rows with the same
  pair.
\<close>

theorem enroll_atomic_and_unique:
  "(session_get_student db (req_student_id req) \<noteq> None \<and>
    session_get_course db (req_course_id req) \<noteq> None \<and>
    (\<exists>e \<in> set (enrollments db).
       e_student_id e = req_student_id req \<and> e_course_id e = req_course_id req)
    \<longrightarrow> enroll req db = (Inl (HTTPException 400 ''Already enrolled (or invalid)'' []), db))
   \<and> (reachable db' \<longrightarrow>
        (\<forall>i < length (enrollments db'). \<forall>j < length (enrollments db'). i \<noteq> j \<longrightarrow>
           (e_student_id (enrollments db' ! i), e_course_id (enrollments db' ! i)) \<noteq>
           (e_student_id (enrollments db' ! j), e_course_id (enrollments db' ! j))))"
proof (intro conjI impI allI)
  assume h: "session_get_student db (req_student_id req) \<noteq> None \<and>
    session_get_course db (req_course_id req) \<noteq> None \<and>
    (\<exists>e \<in> set (enrollments db).
       e_student_id e = req_student_id req \<and> e_course_id e = req_course_id req)"
  then obtain s c where "session_get_student db (req_student_id req) = Some s"
    and "session_get_course db (req_course_id req) = Some c" by auto
  moreover from h have
    "(req_student_id req, req_course_id req) \<in> set (map uq_student_course (enrollments db))"
    by (force simp: uq_student_course_def)
  ultimately show "enroll req db = (Inl (HTTPException 400 ''Already enrolled (or invalid)'' []), db)"
    by (rule enroll_duplicate)
next
  fix i j
  assume "reachable db'" and ij: "i < length (enrollments db')" "j < length (enrollments db')" "i \<noteq> j"
  then have d: "distinct (map uq_student_course (enrollments db'))"
    using reachable_pairs_unique by (simp add: pairs_unique_def)
  from ij have "map uq_student_course (enrollments db') ! i \<noteq> map uq_student_course (enrollments db') ! j"
    using nth_eq_iff_index_eq [OF d, of i j] by simp
  with ij show "(e_student_id (enrollments db' ! i), e_course_id (enrollments db' ! i)) \<noteq>
           (e_student_id (enrollments db' ! j), e_course_id (enrollments db' ! j))"
    by (simp add: uq_student_course_def)
qed

theorem enroll_atomic_and_unique_witness:
  "enroll \<lparr>req_student_id = 1, req_course_id = 2\<rparr>
     \<lparr>students = [\<lparr>st_id = 1, st_name = ''Ana''\<rparr>],
      courses = [\<lparr>c_id = 1, c_title = ''Logic'', c_description = [], c_credits = 3\<rparr>,
                 \<lparr>c_id = 2, c_title = ''Sets'', c_description = [], c_credits = 3\<rparr>],
      enrollments = [\<lparr>e_id = 1, e_student_id = 1, e_course_id = 1\<rparr>,
                     \<lparr>e_id = 2, e_student_id = 1, e_course_id = 2\<rparr>]\<rparr>
   = (Inl (HTTPException 400 ''Already enrolled (or invalid)'' []),
     \<lparr>students = [\<lparr>st_id = 1, st_name = ''Ana''\<rparr>],
      courses = [\<lparr>c_id = 1, c_title = ''Logic'', c_description = [], c_credits = 3\<rparr>,
                 \<lparr>c_id = 2, c_title = ''Sets'', c_description = [], c_credits = 3\<rparr>],
      enrollments = [\<lparr>e_id = 1, e_student_id = 1, e_course_id = 1\<rparr>,
                     \<lparr>e_id = 2, e_student_id = 1, e_course_id = 2\<rparr>]\<rparr>)
   \<and> reachable
     \<lparr>students = [\<lparr>st_id = 1, st_name = ''Ana''\<rparr>],
      courses = [\<lparr>c_id = 1, c_title = ''Logic'', c_description = [], c_credits = 3\<rparr>,
                 \<lparr>c_id = 2, c_title = ''Sets'', c_description = [], c_credits = 3\<rparr>],
      enrollments = [\<lparr>e_id = 1, e_student_id = 1, e_course_id = 1\<rparr>,
                     \<lparr>e_id = 2, e_student_id = 1, e_course_id = 2\<rparr>]\<rparr>"
proof -
  let ?db = "\<lparr>students = [\<lparr>st_id = 1, st_name = ''Ana''\<rparr>],
      courses = [\<lparr>c_id = 1, c_title = ''Logic'', c_description = [], c_credits = 3\<rparr>,
                 \<lparr>c_id = 2, c_title = ''Sets'', c_description = [], c_credits = 3\<rparr>],
      enrollments = [\<lparr>e_id = 1, e_student_id = 1, e_course_id = 1\<rparr>,
                     \<lparr>e_id = 2, e_student_id = 1, e_course_id = 2\<rparr>]\<rparr>"
  let ?req = "\<lparr>req_student_id = 1, req_course_id = 2\<rparr>"
  let ?a = "snd (create_student ''Ana'' empty_school_db)"
  let ?b = "snd (create_course ''Logic'' ?a)"
  let ?c = "snd (create_course ''Sets'' ?b)"
  let ?d = "snd (enroll \<lparr>req_student_id = 1, req_course_id = 1\<rparr> ?c)"
  let ?e = "snd (enroll ?req ?d)"
  have "reachable ?e"
    by (intro reachable.intros)
  moreover have "?e = ?db"
    by (simp add: enroll_def create_course_def create_student_def empty_school_db_def
        commit_enrollment_def session_get_student_def session_get_course_def next_id_def
        uq_student_course_def Let_def)
  ultimately have reach: "reachable ?db" by simp
  have pre: "session_get_student ?db (req_student_id ?req) \<noteq> None \<and>
    session_get_course ?db (req_course_id ?req) \<noteq> None \<and>
    (\<exists>e \<in> set (enrollments ?db).
       e_student_id e = req_student_id ?req \<and> e_course_id e = req_course_id ?req)"
    by (simp add: session_get_student_def session_get_course_def)
  from enroll_atomic_and_unique [of ?db ?req ?db] pre reach show ?thesis
    by blast
qed

section \<open>Properties of student_exam.py\<close>

subsection \<open>Tokens\<close>

lemma div_neg_floor:
  "(t::int) div 1000000 \<le> - ((- t) div 1000000) \<and> - ((- t) div 1000000) \<le> t div 1000000 + 1"
  using zdiv_zminus1_eq_if [of 1000000 "- t"] by (simp split: if_splits)

lemma timestamp_int_ge: "t div 1000000 \<le> timestamp_int t"
  using div_neg_floor [of t] by (simp add: timestamp_int_def)

lemma timestamp_int_le: "timestamp_int t \<le> t div 1000000 + 1"
  using div_neg_floor [of t] by (simp add: timestamp_int_def)

lemma jwt_decode_encode:
  "jwt_decode hm now (jwt_encode hm payload SECRET_KEY ALGORITHM) SECRET_KEY [ALGORITHM] =
     (case claim_exp payload of
        None \<Rightarrow> Inr payload
      | Some e \<Rightarrow> if e < timegm_utcnow now then Inl ExpiredSignatureError else Inr payload)"
  by (simp add: jwt_decode_def jwt_encode_def)

lemma token_email_JWTError:
  assumes "jwt_decode hm now tok SECRET_KEY [ALGORITHM] = Inl e" and "is_JWTError e"
  shows "token_email hm now tok = Inl credentials_exception"
  using assms by (simp add: token_email_def)

lemma token_email_other_error:
  assumes "jwt_decode hm now tok SECRET_KEY [ALGORITHM] = Inl e" and "\<not> is_JWTError e"
  shows "token_email hm now tok = Inl e"
  using assms by (simp add: token_email_def)

lemma jwt_decode_Compact_Inr:
  assumes "jwt_decode hm now (Compact alg p sig) key algs = Inr c"
  shows "p = Claims c \<and> alg \<in> set algs \<and> hm key (alg, p) = sig"
  using assms
  by (auto simp: jwt_decode_def split: if_splits jws_payload.splits option.splits)

lemma create_access_token_in_range:
  assumes "datetime_min \<le> now" "now \<le> datetime_max"
    and "datetime_min \<le> now + m * 60000000" "now + m * 60000000 \<le> datetime_max"
  shows "create_access_token hm now subject m =
     Inr (jwt_encode hm \<lparr>claim_sub = Some subject, claim_iat = Some (timestamp_int now),
            claim_exp = Some (timestamp_int (now + m * 60000000))\<rparr> SECRET_KEY ALGORITHM)"
  using assms
  by (simp add: create_access_token_def timedelta_minutes_def datetime_add_def
      datetime_min_def datetime_max_def)

lemma create_access_token_overflow:
  assumes "datetime_max < now + m * 60000000"
  shows "create_access_token hm now subject m = Inl OverflowError"
  using assms
  by (simp add: create_access_token_def timedelta_minutes_def datetime_add_def)

lemma issue_round_trip:
  assumes "0 < expires_minutes"
    and "datetime_min \<le> now" and "now + expires_minutes * 60000000 \<le> datetime_max"
    and "now \<le> now'" and "now' < now + expires_minutes * 60000000"
  shows "\<exists>tok. create_access_token hm now subject expires_minutes = Inr tok \<and>
               token_email hm now' tok = Inr subject"
proof -
  let ?t = "now + expires_minutes * 60000000"
  let ?payload = "\<lparr>claim_sub = Some subject, claim_iat = Some (timestamp_int now),
                   claim_exp = Some (timestamp_int ?t)\<rparr>"
  from assms have "now \<le> datetime_max" "datetime_min \<le> ?t" by simp_all
  with assms have tok: "create_access_token hm now subject expires_minutes =
      Inr (jwt_encode hm ?payload SECRET_KEY ALGORITHM)"
    by (simp add: create_access_token_in_range)
  from assms(5) have "now' div 1000000 \<le> ?t div 1000000"
    by (simp add: zdiv_mono1)
  also have "\<dots> \<le> timestamp_int ?t" by (rule timestamp_int_ge)
  finally have "\<not> timestamp_int ?t < timegm_utcnow now'"
    by (simp add: timegm_utcnow_def)
  then have "token_email hm now' (jwt_encode hm ?payload SECRET_KEY ALGORITHM) = Inr subject"
    by (simp add: token_email_def jwt_decode_encode)
  with tok show ?thesis by simp
qed

text \<open>
  Claim C1, amended. For every subject string and every positive \<open>expires_minutes\<close> for
  which the expiry instant is a representable \<open>datetime\<close> (not after the year 9999),
  \<open>create_access_token\<close> returns a token, and verifying that token at any instant from
  the issue up to the expiry, in particular immediately, returns exactly the original
  subject. For every \<open>expires_minutes\<close> that puts the expiry instant after the last
  representable \<open>datetime\<close>, the issue itself raises \<open>OverflowError\<close>.
\<close>

theorem issue_then_verify:
  "(0 < expires_minutes \<and> datetime_min \<le> now \<and>
    now + expires_minutes * 60000000 \<le> datetime_max \<and>
    now \<le> now' \<and> now' < now + expires_minutes * 60000000
      \<longrightarrow> (\<exists>tok. create_access_token hm now subject expires_minutes = Inr tok \<and>
                 token_email hm now' tok = Inr subject))
   \<and> (datetime_max < now + expires_minutes * 60000000
      \<longrightarrow> create_access_token hm now subject expires_minutes = Inl OverflowError)"
  using issue_round_trip [of expires_minutes now now' hm subject]
    create_access_token_overflow [of now expires_minutes hm subject]
  by blast

text \<open>
  The claim as stated fails: ten thousand million minutes are positive, and the issue
  raises.
\<close>

theorem issue_overflow_counterexample:
  "(0::int) < 10000000000 \<and> create_access_token sample_hmac 0 ''a@x.com'' 10000000000 = Inl OverflowError"
  by (simp add: create_access_token_def timedelta_minutes_def datetime_add_def datetime_max_def datetime_min_def)

theorem issue_then_verify_witness:
  "(\<exists>tok. create_access_token sample_hmac 0 ''a@x.com'' 60 = Inr tok \<and>
          token_email sample_hmac 1000000 tok = Inr ''a@x.com'')
   \<and> create_access_token sample_hmac 0 ''a@x.com'' 4223371680 = Inl OverflowError"
proof -
  have a: "(0::int) < 60 \<and> datetime_min \<le> 0 \<and> 0 + 60 * 60000000 \<le> datetime_max \<and>
           (0::int) \<le> 1000000 \<and> (1000000::int) < 0 + 60 * 60000000"
    by (simp add: datetime_min_def datetime_max_def)
  have b: "datetime_max < 0 + 4223371680 * 60000000"
    by (simp add: datetime_max_def)
  from issue_then_verify [of 60 0 1000000 sample_hmac "''a@x.com''"] a
  have "\<exists>tok. create_access_token sample_hmac 0 ''a@x.com'' 60 = Inr tok \<and>
          token_email sample_hmac 1000000 tok = Inr ''a@x.com''"
    by blast
  moreover from issue_then_verify [of 4223371680 0 0 sample_hmac "''a@x.com''"] b
  have "create_access_token sample_hmac 0 ''a@x.com'' 4223371680 = Inl OverflowError"
    by blast
  ultimately show ?thesis by blast
qed

text \<open>
  Claim C4, amended. Token verification fails with the 401 credentials exception, and
  \<open>get_current_student\<close> raises it without any account lookup, whenever \<open>jwt.decode\<close>
  raises a \<open>JWTError\<close> or the \<open>sub\<close> claim is missing. \<open>jwt.decode\<close> raises a \<open>JWTError\<close>
  for a token that it cannot split and decode, for a payload that is not a JSON object
  or has a claim it rejects, for an algorithm other than HS256, for a signature that is
  not the MAC under the secret key, and for an \<open>exp\<close> that has passed. A well-signed
  unexpired token whose \<open>sub\<close> is the empty string passes verification, which returns
  the empty subject; the account lookup then runs with the empty email.
\<close>

theorem token_email_rejects:
  "((\<exists>e. jwt_decode hm now tok SECRET_KEY [ALGORITHM] = Inl e \<and> is_JWTError e)
      \<longrightarrow> token_email hm now tok = Inl credentials_exception)
   \<and> token_email hm now (Unparseable s) = Inl credentials_exception
   \<and> token_email hm now (Compact alg (NotAnObject s) sig) = Inl credentials_exception
   \<and> token_email hm now (Compact alg (RejectedClaims s) sig) = Inl credentials_exception
   \<and> (alg \<noteq> ALGORITHM
      \<longrightarrow> token_email hm now (Compact alg p sig) = Inl credentials_exception)
   \<and> (hm SECRET_KEY (alg, p) \<noteq> sig
      \<longrightarrow> token_email hm now (Compact alg p sig) = Inl credentials_exception)
   \<and> ((\<exists>e. claim_exp c = Some e \<and> e < timegm_utcnow now)
      \<longrightarrow> token_email hm now (Compact alg (Claims c) sig) = Inl credentials_exception)
   \<and> (claim_sub c = None
      \<longrightarrow> token_email hm now (Compact alg (Claims c) sig) = Inl credentials_exception)
   \<and> (token_email hm now tok = Inl credentials_exception
      \<longrightarrow> get_current_student hm now tok db = Inl credentials_exception)
   \<and> (jwt_decode hm now tok SECRET_KEY [ALGORITHM] = Inr payload \<and> claim_sub payload = Some []
      \<longrightarrow> token_email hm now tok = Inr [] \<and>
          get_current_student hm now tok db =
            (case get_student_by_email db [] of
               Inl e \<Rightarrow> Inl e
             | Inr None \<Rightarrow> Inl credentials_exception
             | Inr (Some student) \<Rightarrow> Inr student))"
proof -
  have c1: "(\<exists>e. jwt_decode hm now tok SECRET_KEY [ALGORITHM] = Inl e \<and> is_JWTError e)
      \<longrightarrow> token_email hm now tok = Inl credentials_exception"
    using token_email_JWTError by blast
  have c2: "token_email hm now (Unparseable s) = Inl credentials_exception"
    by (simp add: token_email_def jwt_decode_def is_JWTError_def)
  have c3: "token_email hm now (Compact alg (NotAnObject s) sig) = Inl credentials_exception"
    by (simp add: token_email_def jwt_decode_def is_JWTError_def)
  have c4: "token_email hm now (Compact alg (RejectedClaims s) sig) = Inl credentials_exception"
    by (simp add: token_email_def jwt_decode_def is_JWTError_def)
  have c5: "alg \<noteq> ALGORITHM
      \<longrightarrow> token_email hm now (Compact alg p sig) = Inl credentials_exception"
    by (simp add: token_email_def jwt_decode_def is_JWTError_def)
  have c6: "hm SECRET_KEY (alg, p) \<noteq> sig
      \<longrightarrow> token_email hm now (Compact alg p sig) = Inl credentials_exception"
    by (simp add: token_email_def jwt_decode_def is_JWTError_def)
  have c7: "(\<exists>e. claim_exp c = Some e \<and> e < timegm_utcnow now)
      \<longrightarrow> token_email hm now (Compact alg (Claims c) sig) = Inl credentials_exception"
    by (auto simp: token_email_def jwt_decode_def is_JWTError_def)
  have c8: "claim_sub c = None
      \<longrightarrow> token_email hm now (Compact alg (Claims c) sig) = Inl credentials_exception"
    by (simp add: token_email_def jwt_decode_def is_JWTError_def split: option.splits)
  have c9: "token_email hm now tok = Inl credentials_exception
      \<longrightarrow> get_current_student hm now tok db = Inl credentials_exception"
    by (simp add: get_current_student_def)
  have c10: "jwt_decode hm now tok SECRET_KEY [ALGORITHM] = Inr payload \<and> claim_sub payload = Some []
      \<longrightarrow> token_email hm now tok = Inr [] \<and>
          get_current_student hm now tok db =
            (case get_student_by_email db [] of
               Inl e \<Rightarrow> Inl e
             | Inr None \<Rightarrow> Inl credentials_exception
             | Inr (Some student) \<Rightarrow> Inr student)"
    by (simp add: get_current_student_def token_email_def)
  from c1 c2 c3 c4 c5 c6 c7 c8 c9 c10 show ?thesis by blast
qed

text \<open>
  The claim as stated fails: a well-signed unexpired token whose \<open>sub\<close> is the empty
  string verifies, with the empty subject as the result.
\<close>

theorem token_email_empty_sub_counterexample:
  "token_email sample_hmac 0
     (jwt_encode sample_hmac \<lparr>claim_sub = Some [], claim_iat = Some 0, claim_exp = Some 3600\<rparr>
        SECRET_KEY ALGORITHM) = Inr []"
  by (simp add: token_email_def jwt_decode_encode timegm_utcnow_def)

theorem token_email_rejects_witness:
  "token_email sample_hmac 0 (Unparseable ''not.a.token'') = Inl credentials_exception
   \<and> get_current_student sample_hmac 0 (Unparseable ''not.a.token'') [] = Inl credentials_exception
   \<and> token_email sample_hmac 0
       (jwt_encode sample_hmac \<lparr>claim_sub = None, claim_iat = Some 0, claim_exp = Some 3600\<rparr>
          SECRET_KEY ALGORITHM) = Inl credentials_exception
   \<and> token_email sample_hmac 3601000000
       (jwt_encode sample_hmac \<lparr>claim_sub = Some ''a@x.com'', claim_iat = Some 0, claim_exp = Some 3600\<rparr>
          SECRET_KEY ALGORITHM) = Inl credentials_exception
   \<and> token_email sample_hmac 0
       (jwt_encode sample_hmac \<lparr>claim_sub = Some ''a@x.com'', claim_iat = Some 0, claim_exp = Some 3600\<rparr>
          SECRET_KEY ''none'') = Inl credentials_exception
   \<and> token_email sample_hmac 0
       (jwt_encode sample_hmac \<lparr>claim_sub = Some ''a@x.com'', claim_iat = Some 0, claim_exp = Some 3600\<rparr>
          ''another secret'' ALGORITHM) = Inl credentials_exception
   \<and> get_current_student sample_hmac 0
       (jwt_encode sample_hmac \<lparr>claim_sub = Some [], claim_iat = Some 0, claim_exp = Some 3600\<rparr>
          SECRET_KEY ALGORITHM)
       [\<lparr>s_id = 1, s_name = ''Nobody'', s_email = [],
         s_hashed_password = Unidentified [], s_is_active = True\<rparr>]
     = Inr \<lparr>s_id = 1, s_name = ''Nobody'', s_email = [],
         s_hashed_password = Unidentified [], s_is_active = True\<rparr>"
proof -
  let ?q = "\<lparr>claim_sub = None, claim_iat = Some 0, claim_exp = Some 3600\<rparr>"
  let ?r = "\<lparr>claim_sub = Some [], claim_iat = Some 0, claim_exp = Some 3600\<rparr>"
  let ?p = "\<lparr>claim_sub = Some ''a@x.com'', claim_iat = Some 0, claim_exp = Some 3600\<rparr>"
  let ?db = "[\<lparr>s_id = 1, s_name = ''Nobody'', s_email = [],
         s_hashed_password = Unidentified [], s_is_active = True\<rparr>]"
  have d0: "jwt_decode sample_hmac 0 (Unparseable ''not.a.token'') SECRET_KEY [ALGORITHM] = Inl JWTError
            \<and> is_JWTError JWTError"
    by (simp add: jwt_decode_def is_JWTError_def)
  have d2: "jwt_decode sample_hmac 0 (jwt_encode sample_hmac ?r SECRET_KEY ALGORITHM) SECRET_KEY [ALGORITHM] = Inr ?r"
    by (simp add: jwt_decode_encode timegm_utcnow_def)
  have l: "get_student_by_email ?db [] = Inr (Some (hd ?db))"
    by (simp add: get_student_by_email_def)
  have late: "\<exists>e. claim_exp ?p = Some e \<and> e < timegm_utcnow 3601000000"
    by (simp add: timegm_utcnow_def)
  have alg: "''none'' \<noteq> ALGORITHM" by (simp add: ALGORITHM_def)
  have mac: "sample_hmac SECRET_KEY (ALGORITHM, Claims ?p)
               \<noteq> sample_hmac ''another secret'' (ALGORITHM, Claims ?p)"
    by (simp add: sample_hmac_def SECRET_KEY_def)
  note T = token_email_rejects
  from T [of sample_hmac 0 "Unparseable ''not.a.token''" "''not.a.token''"] d0
  have a: "token_email sample_hmac 0 (Unparseable ''not.a.token'') = Inl credentials_exception"
    by blast
  from T [of sample_hmac 0 "Unparseable ''not.a.token''" _ _ _ _ _ "[]"] a
  have a': "get_current_student sample_hmac 0 (Unparseable ''not.a.token'') [] = Inl credentials_exception"
    by blast
  from T [of sample_hmac 0 _ _ ALGORITHM "sample_hmac SECRET_KEY (ALGORITHM, Claims ?q)" _ ?q]
  have b: "token_email sample_hmac 0 (jwt_encode sample_hmac ?q SECRET_KEY ALGORITHM) = Inl credentials_exception"
    by (simp add: jwt_encode_def)
  from T [of sample_hmac 3601000000 _ _ ALGORITHM "sample_hmac SECRET_KEY (ALGORITHM, Claims ?p)" _ ?p] late
  have c: "token_email sample_hmac 3601000000 (jwt_encode sample_hmac ?p SECRET_KEY ALGORITHM) = Inl credentials_exception"
    by (simp add: jwt_encode_def)
  from T [of sample_hmac 0 _ _ "''none''" "sample_hmac SECRET_KEY (''none'', Claims ?p)" "Claims ?p"] alg
  have d: "token_email sample_hmac 0 (jwt_encode sample_hmac ?p SECRET_KEY ''none'') = Inl credentials_exception"
    by (simp add: jwt_encode_def)
  from T [of sample_hmac 0 _ _ ALGORITHM "sample_hmac ''another secret'' (ALGORITHM, Claims ?p)" "Claims ?p"] mac
  have e: "token_email sample_hmac 0 (jwt_encode sample_hmac ?p ''another secret'' ALGORITHM) = Inl credentials_exception"
    by (simp add: jwt_encode_def)
  from T [of sample_hmac 0 "jwt_encode sample_hmac ?r SECRET_KEY ALGORITHM" _ _ _ _ _ ?db ?r] d2 l
  have f: "get_current_student sample_hmac 0 (jwt_encode sample_hmac ?r SECRET_KEY ALGORITHM) ?db = Inr (hd ?db)"
    by simp
  from a a' b c d e f show ?thesis by simp
qed

text \<open>
  Claim C5, amended. A well-signed token fails verification as expired exactly when the
  current time, in whole seconds, is strictly greater than its \<open>exp\<close>; it is valid while
  the current time is at most \<open>exp\<close>, the second \<open>exp\<close> itself included. A token issued
  with \<open>expires_minutes = -1\<close> fails as expired at every instant from its issue on.
\<close>

theorem expiry_check:
  "jwt_decode hm now (jwt_encode hm payload SECRET_KEY ALGORITHM) SECRET_KEY [ALGORITHM] =
     (case claim_exp payload of
        None \<Rightarrow> Inr payload
      | Some e \<Rightarrow> if e < timegm_utcnow now then Inl ExpiredSignatureError else Inr payload)
   \<and> (datetime_min + 60000000 \<le> now0 \<and> now0 \<le> datetime_max \<and> now0 \<le> now
      \<longrightarrow> (\<exists>tok. create_access_token hm now0 subject (- 1) = Inr tok \<and>
                jwt_decode hm now tok SECRET_KEY [ALGORITHM] = Inl ExpiredSignatureError \<and>
                token_email hm now tok = Inl credentials_exception))"
proof (intro conjI impI)
  show "jwt_decode hm now (jwt_encode hm payload SECRET_KEY ALGORITHM) SECRET_KEY [ALGORITHM] =
     (case claim_exp payload of
        None \<Rightarrow> Inr payload
      | Some e \<Rightarrow> if e < timegm_utcnow now then Inl ExpiredSignatureError else Inr payload)"
    by (rule jwt_decode_encode)
next
  assume h: "datetime_min + 60000000 \<le> now0 \<and> now0 \<le> datetime_max \<and> now0 \<le> now"
  let ?t = "now0 + (- 1) * 60000000"
  let ?payload = "\<lparr>claim_sub = Some subject, claim_iat = Some (timestamp_int now0),
                   claim_exp = Some (timestamp_int ?t)\<rparr>"
  let ?tok = "jwt_encode hm ?payload SECRET_KEY ALGORITHM"
  from h have "datetime_min \<le> now0" "now0 \<le> datetime_max" "datetime_min \<le> ?t" "?t \<le> datetime_max"
    by (simp_all add: datetime_min_def)
  then have tok: "create_access_token hm now0 subject (- 1) = Inr ?tok"
    by (rule create_access_token_in_range)
  have "?t div 1000000 = now0 div 1000000 - 60"
    using div_add_self2 [of "1000000::int" "now0 - 60000000"] by simp
  with timestamp_int_le [of ?t] have "timestamp_int ?t < now0 div 1000000" by simp
  also from h have "now0 div 1000000 \<le> now div 1000000" by (simp add: zdiv_mono1)
  finally have late: "timestamp_int ?t < timegm_utcnow now" by (simp add: timegm_utcnow_def)
  then have d: "jwt_decode hm now ?tok SECRET_KEY [ALGORITHM] = Inl ExpiredSignatureError"
    by (simp add: jwt_decode_encode)
  then have "token_email hm now ?tok = Inl credentials_exception"
    by (simp add: token_email_def is_JWTError_def)
  with tok d show "\<exists>tok. create_access_token hm now0 subject (- 1) = Inr tok \<and>
                jwt_decode hm now tok SECRET_KEY [ALGORITHM] = Inl ExpiredSignatureError \<and>
                token_email hm now tok = Inl credentials_exception"
    by simp
qed

theorem expiry_check_witness:
  "\<exists>tok. create_access_token sample_hmac 0 ''a@x.com'' (- 1) = Inr tok \<and>
         jwt_decode sample_hmac 0 tok SECRET_KEY [ALGORITHM] = Inl ExpiredSignatureError \<and>
         token_email sample_hmac 0 tok = Inl credentials_exception"
  using expiry_check [of sample_hmac 0 "\<lparr>claim_sub = None, claim_iat = None, claim_exp = None\<rparr>" 0 "''a@x.com''"]
  by (simp add: datetime_min_def datetime_max_def)

text \<open>
  The claim as stated fails: a token issued at time 0 for one minute has \<open>exp = 60\<close>, and
  at the current time 60, which is greater than or equal to \<open>exp\<close>, it still verifies.
\<close>

theorem expiry_boundary_counterexample:
  "create_access_token sample_hmac 0 ''a@x.com'' 1 =
     Inr (jwt_encode sample_hmac
            \<lparr>claim_sub = Some ''a@x.com'', claim_iat = Some 0, claim_exp = Some 60\<rparr>
            SECRET_KEY ALGORITHM)
   \<and> 60 \<le> timegm_utcnow 60000000
   \<and> token_email sample_hmac 60000000
       (jwt_encode sample_hmac
            \<lparr>claim_sub = Some ''a@x.com'', claim_iat = Some 0, claim_exp = Some 60\<rparr>
            SECRET_KEY ALGORITHM) = Inr ''a@x.com''"
  by (simp add: create_access_token_def timedelta_minutes_def datetime_add_def datetime_min_def
      datetime_max_def timestamp_int_def token_email_def jwt_decode_encode timegm_utcnow_def)

subsection \<open>Passwords\<close>

lemma str_len_le: "str_len s \<le> length s"
  by (simp add: str_len_def)

lemma str_len_replicate: "str_len (replicate n c) = (if utf8_continuation c then 0 else n)"
  by (induction n) (simp_all add: str_len_def)

lemma pwd_context_hash_accepts:
  assumes "length p \<le> 4096" and "CHR 0x00 \<notin> set p"
  shows "pwd_context_hash bc salt p = Inr (Bcrypt ''2b'' 12 salt (bc ''2b'' 12 salt p))"
  using assms str_len_le [of p] by (simp add: pwd_context_hash_def)

lemma pwd_context_hash_refuses:
  assumes "4096 < length p \<or> CHR 0x00 \<in> set p"
  shows "pwd_context_hash bc salt p = Inl PasswordSizeError \<or>
         pwd_context_hash bc salt p = Inl NullPasswordError"
  using assms by (auto simp: pwd_context_hash_def)

lemma pwd_context_verify_compares:
  assumes "length p \<le> 4096" and "CHR 0x00 \<notin> set p"
    and "bcrypt_hash_ok ident rounds salt checksum"
  shows "pwd_context_verify bc p (Bcrypt ident rounds salt checksum) =
           Inr (bc ident rounds salt p = checksum)"
  using assms str_len_le [of p] by (simp add: pwd_context_verify_def bcrypt_hash_ok_def)

lemma pwd_context_verify_boolean:
  assumes "pwd_context_verify bc p h = Inr b"
  shows "\<exists>ident rounds salt checksum.
           h = Bcrypt ident rounds salt checksum \<and> bcrypt_fields_ok ident rounds salt checksum"
  using assms by (cases h) (auto simp: pwd_context_verify_def split: if_splits)

text \<open>
  Claim C2, amended. For every plaintext password \<open>p\<close> whose UTF-8 encoding has at most
  4096 bytes and contains no NUL, \<open>get_password_hash\<close> returns a hash and
  \<open>verify_password\<close> of \<open>p\<close> against it returns true. This holds for every salt and every
  digest function that give a well-formed hash, as passlib's and bcrypt's do.
\<close>

theorem hash_then_verify:
  assumes "length p \<le> 4096" and "CHR 0x00 \<notin> set p"
    and "bcrypt_hash_ok ''2b'' 12 salt (bc ''2b'' 12 salt p)"
  shows "\<exists>h. get_password_hash bc salt p = Inr h \<and> verify_password bc p h = Inr True"
  using assms
  by (simp add: get_password_hash_def verify_password_def pwd_context_hash_accepts
      pwd_context_verify_compares)

theorem hash_then_verify_witness:
  "\<exists>h. get_password_hash sample_bcrypt ''N9qo8uLOickgx2ZMRZoMye'' ''secret123'' = Inr h \<and>
       verify_password sample_bcrypt ''secret123'' h = Inr True"
proof -
  have ok: "bcrypt_hash_ok ''2b'' 12 ''N9qo8uLOickgx2ZMRZoMye''
              (sample_bcrypt ''2b'' 12 ''N9qo8uLOickgx2ZMRZoMye'' ''secret123'')"
    by (simp add: bcrypt_hash_ok_def bcrypt_fields_ok_def repair_unused_def bcrypt64_index_def
        sample_bcrypt_def bcrypt64_chars_def)
  from hash_then_verify [of "''secret123''" "''N9qo8uLOickgx2ZMRZoMye''" sample_bcrypt] ok
  show ?thesis by simp
qed

text \<open>
  The claim as stated fails: a password of 4097 characters is not hashed,
  \<open>get_password_hash\<close> raises.
\<close>

theorem hash_oversize_counterexample:
  "get_password_hash sample_bcrypt ''N9qo8uLOickgx2ZMRZoMye'' (replicate 4097 (CHR ''a''))
     = Inl PasswordSizeError"
  by (simp add: get_password_hash_def pwd_context_hash_def str_len_replicate
      utf8_continuation_def)

text \<open>
  The limit is on the bytes: 2049 times the character U+00E9, whose encoding has two
  bytes, are 2049 characters and 4098 bytes, and are not hashed either.
\<close>

lemma str_len_two_byte: "str_len (concat (replicate n [CHR 0xC3, CHR 0xA9])) = n"
  by (induction n) (simp_all add: str_len_def utf8_continuation_def)

lemma hash_two_byte_characters:
  "str_len (concat (replicate 2049 [CHR 0xC3, CHR 0xA9])) = 2049 \<and>
   get_password_hash sample_bcrypt ''N9qo8uLOickgx2ZMRZoMye''
     (concat (replicate 2049 [CHR 0xC3, CHR 0xA9])) = Inl PasswordSizeError"
  by (simp add: str_len_two_byte get_password_hash_def pwd_context_hash_def
      length_concat sum_list_replicate)

text \<open>
  Claim C3, amended. \<open>verify_password\<close> returns a boolean only for a well-formed bcrypt
  hash. For such a hash (its unused bits clear) and a password whose UTF-8 encoding has
  at most 4096 bytes and no NUL, the boolean says whether the digest of the password
  under the stored identifier, rounds and salt is the stored checksum; so a password
  whose digest differs from that of the password the hash was made for yields false. A
  hash string that is not a well-formed bcrypt hash never yields false:
  \<open>verify_password\<close> raises, \<open>UnknownHashError\<close> when no scheme identifies the string,
  and a \<open>ValueError\<close> of the bcrypt handler (or \<open>PasswordSizeError\<close>) when it starts like
  a bcrypt hash but is malformed.
\<close>

theorem verify_password_false_or_raises:
  "((\<exists>b. verify_password bc p h = Inr b)
      \<longrightarrow> (\<exists>ident rounds salt checksum.
             h = Bcrypt ident rounds salt checksum \<and>
             bcrypt_fields_ok ident rounds salt checksum))
   \<and> verify_password bc p (Unidentified s) = Inl UnknownHashError
   \<and> (verify_password bc p (BcryptMalformed s) = Inl MalformedHashError \<or>
      verify_password bc p (BcryptMalformed s) = Inl PasswordSizeError)
   \<and> (length p \<le> 4096 \<and> CHR 0x00 \<notin> set p \<and> bcrypt_hash_ok ident rounds salt checksum
      \<longrightarrow> verify_password bc p (Bcrypt ident rounds salt checksum) =
            Inr (bc ident rounds salt p = checksum))
   \<and> (get_password_hash bc salt0 p0 = Inr h0 \<and>
      bcrypt_hash_ok ''2b'' 12 salt0 (bc ''2b'' 12 salt0 p0) \<and>
      length p \<le> 4096 \<and> CHR 0x00 \<notin> set p \<and>
      bc ''2b'' 12 salt0 p \<noteq> bc ''2b'' 12 salt0 p0
      \<longrightarrow> verify_password bc p h0 = Inr False)"
proof -
  have c1: "(\<exists>b. verify_password bc p h = Inr b)
      \<longrightarrow> (\<exists>ident rounds salt checksum.
             h = Bcrypt ident rounds salt checksum \<and>
             bcrypt_fields_ok ident rounds salt checksum)"
    using pwd_context_verify_boolean [of bc p h] by (auto simp: verify_password_def)
  have c2: "verify_password bc p (Unidentified s) = Inl UnknownHashError"
    by (simp add: verify_password_def pwd_context_verify_def)
  have c3: "verify_password bc p (BcryptMalformed s) = Inl MalformedHashError \<or>
      verify_password bc p (BcryptMalformed s) = Inl PasswordSizeError"
    by (simp add: verify_password_def pwd_context_verify_def)
  have c4: "length p \<le> 4096 \<and> CHR 0x00 \<notin> set p \<and> bcrypt_hash_ok ident rounds salt checksum
      \<longrightarrow> verify_password bc p (Bcrypt ident rounds salt checksum) =
            Inr (bc ident rounds salt p = checksum)"
    by (simp add: verify_password_def pwd_context_verify_compares)
  have c5: "get_password_hash bc salt0 p0 = Inr h0 \<and>
      bcrypt_hash_ok ''2b'' 12 salt0 (bc ''2b'' 12 salt0 p0) \<and>
      length p \<le> 4096 \<and> CHR 0x00 \<notin> set p \<and>
      bc ''2b'' 12 salt0 p \<noteq> bc ''2b'' 12 salt0 p0
      \<longrightarrow> verify_password bc p h0 = Inr False"
  proof
    assume h: "get_password_hash bc salt0 p0 = Inr h0 \<and>
      bcrypt_hash_ok ''2b'' 12 salt0 (bc ''2b'' 12 salt0 p0) \<and>
      length p \<le> 4096 \<and> CHR 0x00 \<notin> set p \<and>
      bc ''2b'' 12 salt0 p \<noteq> bc ''2b'' 12 salt0 p0"
    then have "h0 = Bcrypt ''2b'' 12 salt0 (bc ''2b'' 12 salt0 p0)"
      by (auto simp: get_password_hash_def pwd_context_hash_def split: if_splits)
    with h show "verify_password bc p h0 = Inr False"
      by (simp add: verify_password_def pwd_context_verify_compares)
  qed
  from c1 c2 c3 c4 c5 show ?thesis by blast
qed

theorem verify_password_false_or_raises_witness:
  "verify_password sample_bcrypt ''wrong''
     (Bcrypt ''2b'' 12 ''N9qo8uLOickgx2ZMRZoMye''
        (sample_bcrypt ''2b'' 12 ''N9qo8uLOickgx2ZMRZoMye'' ''secret123''))
     = Inr False"
proof -
  let ?salt = "''N9qo8uLOickgx2ZMRZoMye''"
  let ?h = "Bcrypt ''2b'' 12 ?salt (sample_bcrypt ''2b'' 12 ?salt ''secret123'')"
  have made: "get_password_hash sample_bcrypt ?salt ''secret123'' = Inr ?h"
    by (simp add: get_password_hash_def pwd_context_hash_def str_len_def)
  have ok: "bcrypt_hash_ok ''2b'' 12 ?salt (sample_bcrypt ''2b'' 12 ?salt ''secret123'')"
    by (simp add: bcrypt_hash_ok_def bcrypt_fields_ok_def repair_unused_def bcrypt64_index_def
        sample_bcrypt_def bcrypt64_chars_def)
  have differ: "sample_bcrypt ''2b'' 12 ?salt ''wrong'' \<noteq> sample_bcrypt ''2b'' 12 ?salt ''secret123''"
    by (simp add: sample_bcrypt_def bcrypt64_chars_def)
  have small: "length ''wrong'' \<le> 4096 \<and> CHR 0x00 \<notin> set ''wrong''"
    by simp
  from verify_password_false_or_raises
         [of sample_bcrypt "''wrong''" ?h "[]" "''2b''" 12 ?salt
             "sample_bcrypt ''2b'' 12 ?salt ''secret123''" ?salt "''secret123''" ?h]
       made ok differ small
  show ?thesis by blast
qed

text \<open>
  The claim as stated fails: a stored string that is the plain password, not a hash,
  makes \<open>verify_password\<close> raise instead of returning false.
\<close>

theorem verify_password_unidentified_counterexample:
  "verify_password sample_bcrypt ''secret123'' (Unidentified ''secret123'') = Inl UnknownHashError"
  by (simp add: verify_password_def pwd_context_verify_def)

subsection \<open>Registration\<close>

lemma filter_email_unique:
  assumes "distinct (map s_email db)" and "s \<in> set db"
  shows "filter (\<lambda>r. s_email r = s_email s) db = [s]"
  using assms
proof (induction db)
  case Nil
  then show ?case by simp
next
  case (Cons r db)
  show ?case
  proof (cases "r = s")
    case True
    with Cons.prems have "s_email s \<notin> s_email ` set db" by simp
    then have "\<forall>x \<in> set db. s_email x \<noteq> s_email s" by (metis imageI)
    then have "filter (\<lambda>r. s_email r = s_email s) db = []" by (simp add: filter_empty_conv)
    with True show ?thesis by simp
  next
    case False
    with Cons.prems have "s \<in> set db" "distinct (map s_email db)" "s_email r \<noteq> s_email s"
      by auto
    with Cons.IH show ?thesis by simp
  qed
qed

lemma get_student_by_email_found:
  assumes "distinct (map s_email db)" and "s \<in> set db"
  shows "get_student_by_email db (s_email s) = Inr (Some s)"
  using filter_email_unique [OF assms] by (simp add: get_student_by_email_def)

lemma get_student_by_email_absent:
  assumes "email \<notin> set (map s_email db)"
  shows "get_student_by_email db email = Inr None"
proof -
  from assms have "filter (\<lambda>s. s_email s = email) db = []"
    by (auto simp: filter_empty_conv)
  then show ?thesis by (simp add: get_student_by_email_def)
qed

text \<open>
  Claim C6, amended. With emails unique in the table, \<open>register\<close> rejects with the 400
  ``Email already registered'' failure, the table unchanged, if and only if an account
  with the given email is persisted. Otherwise, when the UTF-8 encoding of the password
  has at most 4096 bytes and no NUL, it hashes the password, persists a new account with
  that name, email and hash, and returns the account's \<open>id\<close>, \<open>name\<close> and \<open>email\<close> only;
  the response type has no field for the hash. Otherwise still, for a password the
  hasher refuses, the hasher's exception leaves the handler and nothing is persisted.
\<close>

theorem register_spec:
  assumes "distinct (map s_email db)"
  shows "(register bc salt payload db = (Inl (HTTPException 400 ''Email already registered'' []), db)
            \<longleftrightarrow> sc_email payload \<in> set (map s_email db))
    \<and> (sc_email payload \<notin> set (map s_email db) \<and>
        length (sc_password payload) \<le> 4096 \<and> CHR 0x00 \<notin> set (sc_password payload)
        \<longrightarrow> (\<exists>h. get_password_hash bc salt (sc_password payload) = Inr h \<and>
              register bc salt payload db =
                (Inr \<lparr>so_id = next_id (map s_id db), so_name = sc_name payload,
                      so_email = sc_email payload\<rparr>,
                 db @ [\<lparr>s_id = next_id (map s_id db), s_name = sc_name payload,
                        s_email = sc_email payload, s_hashed_password = h,
                        s_is_active = True\<rparr>])))
    \<and> (sc_email payload \<notin> set (map s_email db) \<and>
        (4096 < length (sc_password payload) \<or> CHR 0x00 \<in> set (sc_password payload))
        \<longrightarrow> (\<exists>e. get_password_hash bc salt (sc_password payload) = Inl e \<and>
              register bc salt payload db = (Inl e, db)))"
proof (cases "sc_email payload \<in> set (map s_email db)")
  case True
  then obtain s where s: "s \<in> set db" "s_email s = sc_email payload" by auto
  with assms have "get_student_by_email db (sc_email payload) = Inr (Some s)"
    using get_student_by_email_found by metis
  then have "register bc salt payload db = (Inl (HTTPException 400 ''Email already registered'' []), db)"
    by (simp add: register_def)
  with True show ?thesis by simp
next
  case False
  then have none: "get_student_by_email db (sc_email payload) = Inr None"
    by (rule get_student_by_email_absent)
  have ok: "length (sc_password payload) \<le> 4096 \<and> CHR 0x00 \<notin> set (sc_password payload)
        \<longrightarrow> (\<exists>h. get_password_hash bc salt (sc_password payload) = Inr h \<and>
              register bc salt payload db =
                (Inr \<lparr>so_id = next_id (map s_id db), so_name = sc_name payload,
                      so_email = sc_email payload\<rparr>,
                 db @ [\<lparr>s_id = next_id (map s_id db), s_name = sc_name payload,
                        s_email = sc_email payload, s_hashed_password = h,
                        s_is_active = True\<rparr>]))"
    using none False
    by (auto simp: register_def get_password_hash_def pwd_context_hash_accepts
        commit_student_def Let_def to_student_out_def)
  have bad: "4096 < length (sc_password payload) \<or> CHR 0x00 \<in> set (sc_password payload)
        \<longrightarrow> (\<exists>e. get_password_hash bc salt (sc_password payload) = Inl e \<and>
              register bc salt payload db = (Inl e, db))"
  proof
    assume "4096 < length (sc_password payload) \<or> CHR 0x00 \<in> set (sc_password payload)"
    then have "pwd_context_hash bc salt (sc_password payload) = Inl PasswordSizeError \<or>
         pwd_context_hash bc salt (sc_password payload) = Inl NullPasswordError"
      by (rule pwd_context_hash_refuses)
    with none show "\<exists>e. get_password_hash bc salt (sc_password payload) = Inl e \<and>
              register bc salt payload db = (Inl e, db)"
      by (auto simp: register_def get_password_hash_def)
  qed
  have not400: "register bc salt payload db \<noteq> (Inl (HTTPException 400 ''Email already registered'' []), db)"
  proof (cases "length (sc_password payload) \<le> 4096 \<and> CHR 0x00 \<notin> set (sc_password payload)")
    case True
    with ok show ?thesis by auto
  next
    case False
    then have "4096 < length (sc_password payload) \<or> CHR 0x00 \<in> set (sc_password payload)"
      by auto
    with bad obtain e where e: "get_password_hash bc salt (sc_password payload) = Inl e"
      "register bc salt payload db = (Inl e, db)" by blast
    from e(1) have "e = PasswordSizeError \<or> e = NullPasswordError"
      by (auto simp: get_password_hash_def pwd_context_hash_def split: if_splits)
    with e(2) show ?thesis by auto
  qed
  from False not400 ok bad show ?thesis by simp
qed

text \<open>
  The claim as stated fails: with no account persisted, a password of 4097 characters is
  neither hashed nor is any account persisted or returned.
\<close>

theorem register_rejected_password_counterexample:
  "register sample_bcrypt ''N9qo8uLOickgx2ZMRZoMye''
     \<lparr>sc_name = ''Ana'', sc_email = ''a@x.com'', sc_password = replicate 4097 (CHR ''a'')\<rparr> []
   = (Inl PasswordSizeError, [])"
  by (simp add: register_def get_student_by_email_def get_password_hash_def pwd_context_hash_def
      str_len_replicate utf8_continuation_def)

theorem register_spec_witness:
  "register sample_bcrypt ''N9qo8uLOickgx2ZMRZoMye''
     \<lparr>sc_name = ''Ana'', sc_email = ''a@x.com'', sc_password = ''secret123''\<rparr> []
   = (Inr \<lparr>so_id = 1, so_name = ''Ana'', so_email = ''a@x.com''\<rparr>,
      [\<lparr>s_id = 1, s_name = ''Ana'', s_email = ''a@x.com'',
        s_hashed_password = Bcrypt ''2b'' 12 ''N9qo8uLOickgx2ZMRZoMye''
           (sample_bcrypt ''2b'' 12 ''N9qo8uLOickgx2ZMRZoMye'' ''secret123''),
        s_is_active = True\<rparr>])
   \<and> register sample_bcrypt ''N9qo8uLOickgx2ZMRZoMye''
     \<lparr>sc_name = ''Ana'', sc_email = ''a@x.com'', sc_password = ''secret123''\<rparr>
      [\<lparr>s_id = 1, s_name = ''Ana'', s_email = ''a@x.com'',
        s_hashed_password = Bcrypt ''2b'' 12 ''N9qo8uLOickgx2ZMRZoMye''
           (sample_bcrypt ''2b'' 12 ''N9qo8uLOickgx2ZMRZoMye'' ''secret123''),
        s_is_active = True\<rparr>]
   = (Inl (HTTPException 400 ''Email already registered'' []),
      [\<lparr>s_id = 1, s_name = ''Ana'', s_email = ''a@x.com'',
        s_hashed_password = Bcrypt ''2b'' 12 ''N9qo8uLOickgx2ZMRZoMye''
           (sample_bcrypt ''2b'' 12 ''N9qo8uLOickgx2ZMRZoMye'' ''secret123''),
        s_is_active = True\<rparr>])
   \<and> register sample_bcrypt ''N9qo8uLOickgx2ZMRZoMye''
     \<lparr>sc_name = ''Bo'', sc_email = ''b@x.com'', sc_password = [CHR 0x00]\<rparr>
      [\<lparr>s_id = 1, s_name = ''Ana'', s_email = ''a@x.com'',
        s_hashed_password = Bcrypt ''2b'' 12 ''N9qo8uLOickgx2ZMRZoMye''
           (sample_bcrypt ''2b'' 12 ''N9qo8uLOickgx2ZMRZoMye'' ''secret123''),
        s_is_active = True\<rparr>]
   = (Inl NullPasswordError,
      [\<lparr>s_id = 1, s_name = ''Ana'', s_email = ''a@x.com'',
        s_hashed_password = Bcrypt ''2b'' 12 ''N9qo8uLOickgx2ZMRZoMye''
           (sample_bcrypt ''2b'' 12 ''N9qo8uLOickgx2ZMRZoMye'' ''secret123''),
        s_is_active = True\<rparr>])"
proof -
  let ?payload = "\<lparr>sc_name = ''Ana'', sc_email = ''a@x.com'', sc_password = ''secret123''\<rparr>"
  let ?bad = "\<lparr>sc_name = ''Bo'', sc_email = ''b@x.com'', sc_password = [CHR 0x00]\<rparr>"
  let ?salt = "''N9qo8uLOickgx2ZMRZoMye''"
  let ?db = "[\<lparr>s_id = 1, s_name = ''Ana'', s_email = ''a@x.com'',
        s_hashed_password = Bcrypt ''2b'' 12 ?salt (sample_bcrypt ''2b'' 12 ?salt ''secret123''),
        s_is_active = True\<rparr>]"
  have d0: "distinct (map s_email ([] :: exams_db))" by simp
  have d1: "distinct (map s_email ?db)" by simp
  from register_spec [OF d0, of sample_bcrypt ?salt ?payload]
  have a: "register sample_bcrypt ?salt ?payload [] =
      (Inr \<lparr>so_id = 1, so_name = ''Ana'', so_email = ''a@x.com''\<rparr>, ?db)"
    by (simp add: get_password_hash_def pwd_context_hash_accepts next_id_def)
  from register_spec [OF d1, of sample_bcrypt ?salt ?payload]
  have b: "register sample_bcrypt ?salt ?payload ?db =
      (Inl (HTTPException 400 ''Email already registered'' []), ?db)"
    by simp
  from register_spec [OF d1, of sample_bcrypt ?salt ?bad]
  have c: "register sample_bcrypt ?salt ?bad ?db = (Inl NullPasswordError, ?db)"
    by (simp add: get_password_hash_def pwd_context_hash_def str_len_def utf8_continuation_def)
  from a b c show ?thesis by simp
qed

subsection \<open>Login\<close>

lemma login_unknown_email:
  assumes "form_username form_data \<notin> set (map s_email db)"
  shows "login hm bc now form_data db = Inl incorrect_login"
  using get_student_by_email_absent [OF assms] by (simp add: login_def)

lemma login_wrong_password:
  assumes "distinct (map s_email db)" and "s \<in> set db" and "form_username form_data = s_email s"
    and "verify_password bc (form_password form_data) (s_hashed_password s) = Inr False"
  shows "login hm bc now form_data db = Inl incorrect_login"
  using get_student_by_email_found [OF assms(1,2)] assms(3,4) by (simp add: login_def)

lemma login_success:
  assumes "distinct (map s_email db)" and "s \<in> set db" and "form_username form_data = s_email s"
    and "verify_password bc (form_password form_data) (s_hashed_password s) = Inr True"
    and "datetime_min \<le> now" and "now + 3600000000 \<le> datetime_max"
  shows "login hm bc now form_data db =
     Inr \<lparr>access_token = jwt_encode hm
             \<lparr>claim_sub = Some (s_email s), claim_iat = Some (timestamp_int now),
              claim_exp = Some (timestamp_int (now + 3600000000))\<rparr> SECRET_KEY ALGORITHM,
          token_type = ''bearer''\<rparr>"
proof -
  from assms(5,6) have "create_access_token hm now (s_email s) ACCESS_TOKEN_EXPIRE_MINUTES =
     Inr (jwt_encode hm
             \<lparr>claim_sub = Some (s_email s), claim_iat = Some (timestamp_int now),
              claim_exp = Some (timestamp_int (now + 3600000000))\<rparr> SECRET_KEY ALGORITHM)"
    using create_access_token_in_range [of now 60 hm "s_email s"]
    by (simp add: ACCESS_TOKEN_EXPIRE_MINUTES_def)
  with get_student_by_email_found [OF assms(1,2)] assms(3,4) show ?thesis
    by (simp add: login_def)
qed

lemma login_verify_raises:
  assumes "distinct (map s_email db)" and "s \<in> set db" and "form_username form_data = s_email s"
    and "verify_password bc (form_password form_data) (s_hashed_password s) = Inl e"
  shows "login hm bc now form_data db = Inl e"
  using get_student_by_email_found [OF assms(1,2)] assms(3,4) by (simp add: login_def)

text \<open>
  Claim C7, at the failing input. One account is registered, for \<open>a@x.com\<close>. A login with
  that email and a password of 4097 characters, or one that is a single NUL character,
  is not answered with the generic 401 failure: the hasher's exception leaves the
  handler. The same password with an unknown email is answered with the generic 401
  failure. The two responses differ, and tell a known email from an unknown one.
\<close>

theorem login_known_email_distinguished:
  "login sample_hmac sample_bcrypt 0
     \<lparr>form_username = ''a@x.com'', form_password = replicate 4097 (CHR ''a'')\<rparr>
     [\<lparr>s_id = 1, s_name = ''Ana'', s_email = ''a@x.com'',
       s_hashed_password = Bcrypt ''2b'' 12 ''N9qo8uLOickgx2ZMRZoMye''
          (sample_bcrypt ''2b'' 12 ''N9qo8uLOickgx2ZMRZoMye'' ''secret123''),
       s_is_active = True\<rparr>]
     = Inl PasswordSizeError
   \<and> login sample_hmac sample_bcrypt 0
     \<lparr>form_username = ''b@x.com'', form_password = replicate 4097 (CHR ''a'')\<rparr>
     [\<lparr>s_id = 1, s_name = ''Ana'', s_email = ''a@x.com'',
       s_hashed_password = Bcrypt ''2b'' 12 ''N9qo8uLOickgx2ZMRZoMye''
          (sample_bcrypt ''2b'' 12 ''N9qo8uLOickgx2ZMRZoMye'' ''secret123''),
       s_is_active = True\<rparr>]
     = Inl (HTTPException 401 ''Incorrect email or password'' [(''WWW-Authenticate'', ''Bearer'')])
   \<and> login sample_hmac sample_bcrypt 0
     \<lparr>form_username = ''a@x.com'', form_password = [CHR 0x00]\<rparr>
     [\<lparr>s_id = 1, s_name = ''Ana'', s_email = ''a@x.com'',
       s_hashed_password = Bcrypt ''2b'' 12 ''N9qo8uLOickgx2ZMRZoMye''
          (sample_bcrypt ''2b'' 12 ''N9qo8uLOickgx2ZMRZoMye'' ''secret123''),
       s_is_active = True\<rparr>]
     = Inl NullPasswordError
   \<and> login sample_hmac sample_bcrypt 0
     \<lparr>form_username = ''b@x.com'', form_password = [CHR 0x00]\<rparr>
     [\<lparr>s_id = 1, s_name = ''Ana'', s_email = ''a@x.com'',
       s_hashed_password = Bcrypt ''2b'' 12 ''N9qo8uLOickgx2ZMRZoMye''
          (sample_bcrypt ''2b'' 12 ''N9qo8uLOickgx2ZMRZoMye'' ''secret123''),
       s_is_active = True\<rparr>]
     = Inl (HTTPException 401 ''Incorrect email or password'' [(''WWW-Authenticate'', ''Bearer'')])"
  by (simp add: login_def get_student_by_email_def verify_password_def pwd_context_verify_def
      incorrect_login_def str_len_replicate str_len_def utf8_continuation_def
      bcrypt_fields_ok_def sample_bcrypt_def bcrypt64_chars_def)

subsection \<open>Protected routes\<close>





text \<open>
  Claim C10. \<open>my_exams\<close> takes no database: its response is the caller's account id, the
  term it was given, and the same two entries, Math 101 on 2026-12-15 with grade A and
  History 201 on 2026-12-18 with grade B+, each carrying the term it was given. So the
  route \<open>/me/exams\<close> answers every authenticated student, in every state of the store,
  with that response, in which only the account id and the term vary.
\<close>

theorem my_exams_fixed:
  "my_exams term_arg s =
     \<lparr>resp_exams_student_id = s_id s, resp_exams_term = term_arg,
      resp_exams =
        [\<lparr>exam_course = ''Math 101'', exam_term = term_arg,
          exam_date = ''2026-12-15'', exam_grade = ''A''\<rparr>,
         \<lparr>exam_course = ''History 201'', exam_term = term_arg,
          exam_date = ''2026-12-18'', exam_grade = ''B+''\<rparr>]\<rparr>
   \<and> (get_current_student hm now tok db = Inr s
      \<longrightarrow> my_exams_route hm now tok db term_arg =
           Inr \<lparr>resp_exams_student_id = s_id s, resp_exams_term = term_arg,
                resp_exams =
                  [\<lparr>exam_course = ''Math 101'', exam_term = term_arg,
                    exam_date = ''2026-12-15'', exam_grade = ''A''\<rparr>,
                   \<lparr>exam_course = ''History 201'', exam_term = term_arg,
                    exam_date = ''2026-12-18'', exam_grade = ''B+''\<rparr>]\<rparr>)
   \<and> (s_id s = s_id s' \<longrightarrow> my_exams term_arg s = my_exams term_arg s')"
  by (simp add: my_exams_def my_exams_route_def Let_def)

theorem my_exams_fixed_witness:
  "my_exams_route sample_hmac 0
     (jwt_encode sample_hmac
        \<lparr>claim_sub = Some ''a@x.com'', claim_iat = Some 0, claim_exp = Some 3600\<rparr>
        SECRET_KEY ALGORITHM)
     [\<lparr>s_id = 1, s_name = ''Ana'', s_email = ''a@x.com'',
       s_hashed_password = Bcrypt ''2b'' 12 ''N9qo8uLOickgx2ZMRZoMye''
          (sample_bcrypt ''2b'' 12 ''N9qo8uLOickgx2ZMRZoMye'' ''secret123''),
       s_is_active = True\<rparr>] ''2026W''
   = Inr \<lparr>resp_exams_student_id = 1, resp_exams_term = ''2026W'',
          resp_exams =
            [\<lparr>exam_course = ''Math 101'', exam_term = ''2026W'',
              exam_date = ''2026-12-15'', exam_grade = ''A''\<rparr>,
             \<lparr>exam_course = ''History 201'', exam_term = ''2026W'',
              exam_date = ''2026-12-18'', exam_grade = ''B+''\<rparr>]\<rparr>"
proof -
  let ?ana = "\<lparr>s_id = 1, s_name = ''Ana'', s_email = ''a@x.com'',
       s_hashed_password = Bcrypt ''2b'' 12 ''N9qo8uLOickgx2ZMRZoMye''
          (sample_bcrypt ''2b'' 12 ''N9qo8uLOickgx2ZMRZoMye'' ''secret123''),
       s_is_active = True\<rparr>"
  let ?tok = "jwt_encode sample_hmac
        \<lparr>claim_sub = Some ''a@x.com'', claim_iat = Some 0, claim_exp = Some 3600\<rparr>
        SECRET_KEY ALGORITHM"
  have auth: "get_current_student sample_hmac 0 ?tok [?ana] = Inr ?ana"
    by (simp add: get_current_student_def token_email_def jwt_decode_encode timegm_utcnow_def
        get_student_by_email_def)
  from my_exams_fixed [of "''2026W''" ?ana sample_hmac 0 ?tok "[?ana]" ?ana] auth
  show ?thesis by simp
qed

end
